theory Spec2Isabelle
  imports Complex_Main
begin

section \<open>JavaScript values\<close>

text \<open>
  Both programs of the repository are JavaScript: \<^verbatim>\<open>src/index.js\<close> is the Express
  gateway, and the React Native screen holds the player controller. The values they pass
  around are parsed JSON bodies and the strings, booleans and numbers of component state.

  A JavaScript string is modelled by the list of the bytes of its UTF-8 encoding, so a
  \<^typ>\<open>string\<close> stands for a well-formed string (one without unpaired surrogates).
  A number is a finite value, one of the two infinities, or NaN; the two zeros are
  not told apart, as \<^verbatim>\<open>0 === -0\<close> in the language.
  An object is the list of its own properties in insertion order, with distinct keys.
\<close>

datatype jsnum = Finite rat | PosInfinity | NegInfinity | NaN

datatype jsval =
    JUndefined
  | JNull
  | JBool bool
  | JNum jsnum
  | JStr string
  | JArr "jsval list"
  | JObj "(string \<times> jsval) list"

text \<open>A thrown value: every exception these programs catch is read through \<^verbatim>\<open>.message\<close>.\<close>

datatype exn = Exn (message: string)

text \<open>ToBoolean, which decides \<^verbatim>\<open>if (x)\<close>, \<^verbatim>\<open>!x\<close> and \<^verbatim>\<open>x || y\<close>.\<close>

fun truthy :: "jsval \<Rightarrow> bool" where
  "truthy JUndefined = False"
| "truthy JNull = False"
| "truthy (JBool b) = b"
| "truthy (JNum n) = (n \<noteq> Finite 0 \<and> n \<noteq> NaN)"
| "truthy (JStr s) = (s \<noteq> [])"
| "truthy (JArr xs) = True"
| "truthy (JObj kvs) = True"

text \<open>
  \<^verbatim>\<open>v.k\<close> for the property names the programs read (\<^verbatim>\<open>success\<close>, \<^verbatim>\<open>error\<close>,
  \<^verbatim>\<open>m3u8_url\<close>, \<^verbatim>\<open>headers\<close>, \<^verbatim>\<open>Referer\<close>, \<^verbatim>\<open>User-Agent\<close>): the own property of an
  object, and \<^verbatim>\<open>undefined\<close> on an object without it and on every primitive and array.
\<close>

fun field :: "jsval \<Rightarrow> string \<Rightarrow> jsval" where
  "field (JObj kvs) k = (case map_of kvs k of None \<Rightarrow> JUndefined | Some v \<Rightarrow> v)"
| "field v k = JUndefined"

subsection \<open>JSON.stringify\<close>

text \<open>
  A body is sent as the text \<^verbatim>\<open>JSON.stringify(v)\<close>. JSON has no \<^verbatim>\<open>undefined\<close>, no
  NaN and no infinity: the text holds \<^verbatim>\<open>null\<close> for a number that is not finite and for
  an \<^verbatim>\<open>undefined\<close> element of an array, and leaves out a property whose value is
  \<^verbatim>\<open>undefined\<close>. \<open>stringified v\<close> is the JSON value that text denotes, which is what
  the receiver of the body reads. (\<^verbatim>\<open>JSON.stringify(undefined)\<close> is no text at all.)
\<close>

fun isFinite :: "jsnum \<Rightarrow> bool" where
  "isFinite (Finite q) = True"
| "isFinite n = False"

fun stringified :: "jsval \<Rightarrow> jsval" where
  "stringified (JNum n) = (if isFinite n then JNum n else JNull)"
| "stringified (JArr xs) =
     JArr (map (\<lambda>x. if x = JUndefined then JNull else stringified x) xs)"
| "stringified (JObj kvs) =
     JObj (map (\<lambda>(k, v). (k, stringified v)) (filter (\<lambda>(k, v). v \<noteq> JUndefined) kvs))"
| "stringified v = v"


subsection \<open>encodeURIComponent and trim\<close>

text \<open>
  \<^verbatim>\<open>encodeURIComponent\<close> keeps the unreserved characters
  \<^verbatim>\<open>A-Z a-z 0-9 - _ . ! ~ * ' ( )\<close> and writes every other character as the bytes of its
  UTF-8 encoding, each byte as \<^verbatim>\<open>%XX\<close> in upper-case hexadecimal. It throws only
  on an unpaired surrogate, which a \<^typ>\<open>string\<close> here never holds.
\<close>

definition uriUnreserved :: "char list" where
  "uriUnreserved =
     ''ABCDEFGHIJKLMNOPQRSTUVWXYZabcdefghijklmnopqrstuvwxyz0123456789-_.!~*()'' @ [CHR 0x27]"

definition hexDigit :: "nat \<Rightarrow> char" where
  "hexDigit n = ''0123456789ABCDEF'' ! (n mod 16)"

definition percentEncode :: "char \<Rightarrow> string" where
  "percentEncode c =
     [CHR ''%'', hexDigit ((of_char c :: nat) div 16), hexDigit ((of_char c :: nat) mod 16)]"

definition encodeURIComponent :: "string \<Rightarrow> string" where
  "encodeURIComponent s =
     concat (map (\<lambda>c. if c \<in> set uriUnreserved then [c] else percentEncode c) s)"

text \<open>
  \<^verbatim>\<open>String.prototype.trim\<close> removes white space and line terminators from both ends:
  TAB, LF, VT, FF, CR, SPACE, U+00A0, U+1680, U+2000 to U+200A, U+2028, U+2029, U+202F,
  U+205F, U+3000 and U+FEFF, listed here by their UTF-8 bytes.
\<close>

definition whiteSpace :: "string list" where
  "whiteSpace =
     [[CHR 0x09], [CHR 0x0A], [CHR 0x0B], [CHR 0x0C], [CHR 0x0D], [CHR 0x20],
      [CHR 0xC2, CHR 0xA0],
      [CHR 0xE1, CHR 0x9A, CHR 0x80],
      [CHR 0xE2, CHR 0x80, CHR 0x80], [CHR 0xE2, CHR 0x80, CHR 0x81],
      [CHR 0xE2, CHR 0x80, CHR 0x82], [CHR 0xE2, CHR 0x80, CHR 0x83],
      [CHR 0xE2, CHR 0x80, CHR 0x84], [CHR 0xE2, CHR 0x80, CHR 0x85],
      [CHR 0xE2, CHR 0x80, CHR 0x86], [CHR 0xE2, CHR 0x80, CHR 0x87],
      [CHR 0xE2, CHR 0x80, CHR 0x88], [CHR 0xE2, CHR 0x80, CHR 0x89],
      [CHR 0xE2, CHR 0x80, CHR 0x8A],
      [CHR 0xE2, CHR 0x80, CHR 0xA8], [CHR 0xE2, CHR 0x80, CHR 0xA9],
      [CHR 0xE2, CHR 0x80, CHR 0xAF],
      [CHR 0xE2, CHR 0x81, CHR 0x9F],
      [CHR 0xE3, CHR 0x80, CHR 0x80],
      [CHR 0xEF, CHR 0xBB, CHR 0xBF]]"

text \<open>Remove from the front of \<open>s\<close> every leading occurrence of a sequence of \<open>ws\<close>.\<close>

function stripLeading :: "string list \<Rightarrow> string \<Rightarrow> string" where
  "stripLeading ws s =
     (case List.find (\<lambda>w. w \<noteq> [] \<and> take (length w) s = w) ws of
        None \<Rightarrow> s
      | Some w \<Rightarrow> stripLeading ws (drop (length w) s))"
  by pat_completeness auto
termination
proof (relation "measure (\<lambda>(ws, s). length s)")
  show "wf (measure (\<lambda>(ws, s). length s))"
    by simp
next
  fix ws :: "string list" and s w :: string
  assume "List.find (\<lambda>w. w \<noteq> [] \<and> take (length w) s = w) ws = Some w"
  then have "w \<noteq> []" and "take (length w) s = w"
    by (auto simp: find_Some_iff)
  then have "s \<noteq> []"
    by auto
  with \<open>w \<noteq> []\<close> show "((ws, drop (length w) s), (ws, s)) \<in> measure (\<lambda>(ws, s). length s)"
    by simp
qed

definition trim :: "string \<Rightarrow> string" where
  "trim s = rev (stripLeading (map rev whiteSpace) (rev (stripLeading whiteSpace s)))"

subsection \<open>The platform\<close>

text \<open>
  What the platform decides. \<^verbatim>\<open>await fetch(url)\<close> either throws or gives a Response
  object; \<^verbatim>\<open>await response.json()\<close> either throws (the body is not JSON, the
  connection broke while reading) or gives the parsed body. Reading a property of
  \<^verbatim>\<open>null\<close> or \<^verbatim>\<open>undefined\<close> throws a TypeError whose message differs between engines.
\<close>

record http_response =
  json :: "exn + jsval"

record env =
  fetch :: "string \<Rightarrow> exn + http_response"
  propertyOfNullish :: "jsval \<Rightarrow> string \<Rightarrow> exn"

definition get_prop :: "env \<Rightarrow> jsval \<Rightarrow> string \<Rightarrow> exn + jsval" where
  "get_prop env v k =
     (if v = JNull \<or> v = JUndefined then Inl (propertyOfNullish env v k) else Inr (field v k))"

text \<open>What the two awaits of an outbound call give: the parsed body, or the exception.\<close>

definition outbound :: "env \<Rightarrow> string \<Rightarrow> exn + jsval" where
  "outbound env url =
     (case fetch env url of Inl err \<Rightarrow> Inl err | Inr response \<Rightarrow> json response)"

section \<open>The proxy gateway (src/index.js)\<close>

text \<open>
  The inbound request, as far as the handler reads it: \<^verbatim>\<open>req.query\<close>, the query
  parameters with string values. A parameter that is not in the query string reads as
  \<^verbatim>\<open>undefined\<close> (\<open>None\<close>); \<^verbatim>\<open>?title=\<close> gives the empty string. A repeated
  or bracketed parameter, which the query parser can turn into an array or an object, is
  not modelled: the interface takes \<^verbatim>\<open>title\<close> to be a string.
\<close>

record request =
  query :: "string \<rightharpoonup> string"

text \<open>
  What the handler sends: \<^verbatim>\<open>res.json(v)\<close> sends the text \<^verbatim>\<open>JSON.stringify(v)\<close> as
  the body, with the status Express starts from, 200. The body of a response is the
  JSON value the caller reads from that text.
\<close>

record response =
  status :: nat
  body :: jsval

definition res_json :: "jsval \<Rightarrow> response" where
  "res_json v = \<lparr>status = 200, body = stringified v\<rparr>"

text \<open>
  The \<^verbatim>\<open>try\<close> block of the handler of \<^verbatim>\<open>GET /api/proxy-get-stream\<close>. The result is
  the response sent, or the exception that leaves the block, together with the URLs of the
  outbound calls made so far. \<^verbatim>\<open>!title\<close> holds for \<^verbatim>\<open>undefined\<close>, the first
  case, and for the empty string.
\<close>

definition upstream_url :: "string \<Rightarrow> string" where
  "upstream_url title =
     ''https://u-1-1azw.onrender.com/api/get-stream?title='' @ encodeURIComponent title"

definition proxy_get_stream_try :: "env \<Rightarrow> request \<Rightarrow> (exn + response) \<times> string list" where
  "proxy_get_stream_try env req =
     (case query req ''title'' of
        None \<Rightarrow>
          (Inr (res_json (JObj [(''success'', JBool False),
                                (''error'', JStr ''Title parameter required'')])), [])
      | Some title \<Rightarrow>
          if \<not> truthy (JStr title) then
            (Inr (res_json (JObj [(''success'', JBool False),
                                  (''error'', JStr ''Title parameter required'')])), [])
          else
            (case fetch env (upstream_url title) of
               Inl err \<Rightarrow> (Inl err, [upstream_url title])
             | Inr response \<Rightarrow>
                 (case json response of
                    Inl err \<Rightarrow> (Inl err, [upstream_url title])
                  | Inr data \<Rightarrow> (Inr (res_json data), [upstream_url title]))))"

text \<open>The whole handler: the \<^verbatim>\<open>catch\<close> clause answers for every exception.\<close>

definition proxy_get_stream :: "env \<Rightarrow> request \<Rightarrow> response \<times> string list" where
  "proxy_get_stream env req =
     (case proxy_get_stream_try env req of
        (Inr sent, calls) \<Rightarrow> (sent, calls)
      | (Inl err, calls) \<Rightarrow>
          (res_json (JObj [(''success'', JBool False), (''error'', JStr (message err))]), calls))"

section \<open>The player screen\<close>

text \<open>
  The source of the screen holds two listings of the component \<^verbatim>\<open>VideoPlayerApp\<close>.
  The first is complete and keeps five state variables. The second, which starts at
  its \<^verbatim>\<open>fetchStream\<close>, drives the video widget through media controls and keeps
  four more: \<^verbatim>\<open>isLoading\<close>, \<^verbatim>\<open>playerState\<close>, \<^verbatim>\<open>currentTime\<close> and \<^verbatim>\<open>duration\<close>.
  Its \<^verbatim>\<open>useState\<close> declarations and the import of \<^verbatim>\<open>PLAYER_STATES\<close> are not part of
  the listing, so the state is the record of the variables its handlers read and set.

  A state setter replaces the variable, so a handler is a function from the state before
  to the state after, together with what it does to the outside: the alerts it shows and
  the network calls it starts. \<^verbatim>\<open>console.log\<close> calls are left out. A handler reads the
  variables of the render it was created in; the model runs each handler on the current
  state.

  \<^verbatim>\<open>fetchStream\<close> is \<^verbatim>\<open>async\<close>: it runs up to its first \<^verbatim>\<open>await\<close>, and the rest
  runs when the network has answered. In between, other handlers run, a second
  \<^verbatim>\<open>fetchStream\<close> among them, since the text input's \<^verbatim>\<open>onSubmitEditing\<close> and the example
  buttons start one whatever \<^verbatim>\<open>loading\<close> is. So \<^verbatim>\<open>fetchStream\<close> is two functions on
  the state: its start, and its continuation, which is applied to the state of the moment
  the answer arrives. No state is read or set between the two awaits, so together they
  are one wait, for what \<open>outbound\<close> gives.
\<close>

record app_state =
  streamData :: jsval
  loading :: bool
  error :: jsval
  title :: string
  isFullscreen :: bool

text \<open>
  Modelled from the spec: the enumeration \<^verbatim>\<open>PLAYER_STATES\<close>, imported by the second
  listing from the media-controls package; the spec names its three values.
\<close>

datatype PLAYER_STATES = PLAYING | PAUSED | ENDED

record player = app_state +
  isLoading :: bool
  playerState :: PLAYER_STATES
  currentTime :: jsnum
  duration :: jsnum

datatype effect = Alert string jsval | Fetch string

definition API_BASE_URL :: string where
  "API_BASE_URL = ''https://u-1-1azw.onrender.com''"

definition stream_url :: "string \<Rightarrow> string" where
  "stream_url t = API_BASE_URL @ ''/api/get-stream?title='' @ encodeURIComponent (trim t)"

subsection \<open>The second listing: the controller with playback state\<close>

text \<open>
  The start of \<^verbatim>\<open>fetchStream\<close>: the guard, the four setters, and the call of
  \<^verbatim>\<open>fetch(url)\<close>. The result is the state, what was shown and started, and the URL the
  call now waits for, if it went that far.
\<close>

definition fetchStream_start :: "player \<Rightarrow> player \<times> effect list \<times> string option" where
  "fetchStream_start s =
     (if \<not> truthy (JStr (trim (title s))) then
        (s, [Alert ''Error'' (JStr ''Please enter movie/series title'')], None)
      else
        (s\<lparr>loading := True, error := JNull, streamData := JNull, isLoading := True\<rparr>,
         [Fetch (stream_url (title s))], Some (stream_url (title s))))"

text \<open>
  The rest of the \<^verbatim>\<open>try\<close> block, once the awaits have given \<open>awaited\<close>, on the
  state of that moment. No setter runs before the last point that can throw, so an
  exception leaves the state as it was.
\<close>

definition fetchStream_try :: "env \<Rightarrow> exn + jsval \<Rightarrow> player \<Rightarrow> exn + player \<times> effect list" where
  "fetchStream_try env awaited s =
     (case awaited of
        Inl err \<Rightarrow> Inl err
      | Inr data \<Rightarrow>
     (case get_prop env data ''success'' of
        Inl err \<Rightarrow> Inl err
      | Inr success \<Rightarrow>
          if truthy success then
            Inr (s\<lparr>streamData := data, playerState := PLAYING\<rparr>, [])
          else
            Inr (s\<lparr>error := field data ''error''\<rparr>,
                 [Alert ''Error'' (if truthy (field data ''error'') then field data ''error''
                                   else JStr ''Failed to get stream'')])))"

text \<open>The continuation: the rest of \<^verbatim>\<open>try\<close>, then \<^verbatim>\<open>catch\<close>, then \<^verbatim>\<open>finally\<close>.\<close>

definition fetchStream_resume :: "env \<Rightarrow> exn + jsval \<Rightarrow> player \<Rightarrow> player \<times> effect list" where
  "fetchStream_resume env awaited s =
     (let (s2, shown) =
            (case fetchStream_try env awaited s of
               Inr done \<Rightarrow> done
             | Inl err \<Rightarrow>
                 (s\<lparr>error := JStr (''Network error: '' @ message err)\<rparr>,
                  [Alert ''Network Error'' (JStr ''Cannot connect to API server'')]))
      in (s2\<lparr>loading := False\<rparr>, shown))"

text \<open>A call that no other handler interrupts: the continuation follows the start.\<close>

definition fetchStream :: "env \<Rightarrow> player \<Rightarrow> player \<times> effect list" where
  "fetchStream env s =
     (case fetchStream_start s of
        (s1, started, None) \<Rightarrow> (s1, started)
      | (s1, started, Some url) \<Rightarrow>
          (let (s2, shown) = fetchStream_resume env (outbound env url) s1
           in (s2, started @ shown)))"

text \<open>\<^verbatim>\<open>onChangeText={setTitle}\<close>: typing replaces the title.\<close>

definition setTitle :: "string \<Rightarrow> 'a app_state_scheme \<Rightarrow> 'a app_state_scheme" where
  "setTitle t s = s\<lparr>title := t\<rparr>"

text \<open>\<^verbatim>\<open>onProgress(data)\<close>; the argument here is \<^verbatim>\<open>data.currentTime\<close>.\<close>

definition onProgress :: "jsnum \<Rightarrow> player \<Rightarrow> player" where
  "onProgress data_currentTime s =
     (if \<not> isLoading s \<and> playerState s \<noteq> ENDED then s\<lparr>currentTime := data_currentTime\<rparr>
      else s)"

text \<open>\<^verbatim>\<open>onError(error)\<close>: the argument is only logged.\<close>

definition onError :: "'e \<Rightarrow> player \<Rightarrow> player \<times> effect list" where
  "onError err s =
     (s\<lparr>isLoading := False\<rparr>,
      [Alert ''Playback Error''
         (JStr ''Failed to play video stream. Check if headers are working.'')])"

definition clearAll :: "player \<Rightarrow> player" where
  "clearAll s =
     s\<lparr>title := [], streamData := JNull, error := JNull, playerState := PAUSED,
       currentTime := Finite 0\<rparr>"

subsection \<open>The first listing: the screen without playback state\<close>

text \<open>
  The same three handlers as the first listing has them. They touch only the five
  variables of \<^typ>\<open>app_state\<close>, so they are defined on every extension of that record.
\<close>

definition fetchStream_start_v1 ::
  "'a app_state_scheme \<Rightarrow> 'a app_state_scheme \<times> effect list \<times> string option" where
  "fetchStream_start_v1 s =
     (if \<not> truthy (JStr (trim (title s))) then
        (s, [Alert ''Error'' (JStr ''Please enter movie/series title'')], None)
      else
        (s\<lparr>loading := True, error := JNull, streamData := JNull\<rparr>,
         [Fetch (stream_url (title s))], Some (stream_url (title s))))"

definition fetchStream_try_v1 ::
  "env \<Rightarrow> exn + jsval \<Rightarrow> 'a app_state_scheme \<Rightarrow> exn + 'a app_state_scheme \<times> effect list" where
  "fetchStream_try_v1 env awaited s =
     (case awaited of
        Inl err \<Rightarrow> Inl err
      | Inr data \<Rightarrow>
     (case get_prop env data ''success'' of
        Inl err \<Rightarrow> Inl err
      | Inr success \<Rightarrow>
          if truthy success then
            Inr (s\<lparr>streamData := data\<rparr>, [])
          else
            Inr (s\<lparr>error := field data ''error''\<rparr>,
                 [Alert ''Error'' (if truthy (field data ''error'') then field data ''error''
                                   else JStr ''Failed to get stream'')])))"

definition fetchStream_resume_v1 ::
  "env \<Rightarrow> exn + jsval \<Rightarrow> 'a app_state_scheme \<Rightarrow> 'a app_state_scheme \<times> effect list" where
  "fetchStream_resume_v1 env awaited s =
     (let (s2, shown) =
            (case fetchStream_try_v1 env awaited s of
               Inr done \<Rightarrow> done
             | Inl err \<Rightarrow>
                 (s\<lparr>error := JStr (''Network error: '' @ message err)\<rparr>,
                  [Alert ''Network Error'' (JStr ''Cannot connect to API server'')]))
      in (s2\<lparr>loading := False\<rparr>, shown))"

definition fetchStream_v1 ::
  "env \<Rightarrow> 'a app_state_scheme \<Rightarrow> 'a app_state_scheme \<times> effect list" where
  "fetchStream_v1 env s =
     (case fetchStream_start_v1 s of
        (s1, started, None) \<Rightarrow> (s1, started)
      | (s1, started, Some url) \<Rightarrow>
          (let (s2, shown) = fetchStream_resume_v1 env (outbound env url) s1
           in (s2, started @ shown)))"

definition onError_v1 :: "'e \<Rightarrow> 'a app_state_scheme \<Rightarrow> 'a app_state_scheme \<times> effect list" where
  "onError_v1 err s =
     (s, [Alert ''Playback Error'' (JStr ''Failed to play video stream'')])"

definition clearAll_v1 :: "'a app_state_scheme \<Rightarrow> 'a app_state_scheme" where
  "clearAll_v1 s = s\<lparr>title := [], streamData := JNull, error := JNull\<rparr>"

subsection \<open>The stream descriptor of the spec\<close>

text \<open>
  A well-formed successful descriptor, in the spec's words: \<^verbatim>\<open>success\<close> is the boolean
  true, \<^verbatim>\<open>video_id\<close> is a string, and \<^verbatim>\<open>m3u8_url\<close>, \<^verbatim>\<open>headers.Referer\<close> and
  \<^verbatim>\<open>headers.User-Agent\<close> are present, non-empty strings. The code does not check this;
  the predicate only names the responses a claim is about.
\<close>

fun isString :: "jsval \<Rightarrow> bool" where
  "isString (JStr s) = True"
| "isString v = False"

definition wellFormedDescriptor :: "jsval \<Rightarrow> bool" where
  "wellFormedDescriptor d \<longleftrightarrow>
     field d ''success'' = JBool True \<and>
     isString (field d ''video_id'') \<and>
     isString (field d ''m3u8_url'') \<and> truthy (field d ''m3u8_url'') \<and>
     isString (field (field d ''headers'') ''Referer'') \<and>
     truthy (field (field d ''headers'') ''Referer'') \<and>
     isString (field (field d ''headers'') ''User-Agent'') \<and>
     truthy (field (field d ''headers'') ''User-Agent'')"

section \<open>Example inputs\<close>

text \<open>
  The response of the spec's scenario, an upstream refusal, the parsed form of the body
  \<^verbatim>\<open>{"success":true,"n":1e400}\<close>, a platform whose network answers every call with a
  given body, one whose network throws, one that knows a single title, the screen after
  the user has typed a title, and the screen at the end of a film.
\<close>

definition scenarioDescriptor :: jsval where
  "scenarioDescriptor =
     JObj [(''success'', JBool True), (''video_id'', JStr ''abc''),
           (''m3u8_url'', JStr ''https://x/y.m3u8''),
           (''headers'', JObj [(''Referer'', JStr ''r''), (''User-Agent'', JStr ''u'')])]"

definition notFound :: jsval where
  "notFound = JObj [(''success'', JBool False), (''error'', JStr ''Stream not found'')]"


definition answering :: "jsval \<Rightarrow> env" where
  "answering data =
     \<lparr>fetch = (\<lambda>url. Inr \<lparr>json = Inr data\<rparr>),
      propertyOfNullish = (\<lambda>v k. Exn ''Cannot read property of null'')\<rparr>"

definition throwing :: "string \<Rightarrow> env" where
  "throwing msg =
     \<lparr>fetch = (\<lambda>url. Inl (Exn msg)),
      propertyOfNullish = (\<lambda>v k. Exn ''Cannot read property of null'')\<rparr>"

definition knowingOne :: env where
  "knowingOne =
     \<lparr>fetch = (\<lambda>url. if url = stream_url ''wednesday.s01e03''
                      then Inr \<lparr>json = Inr scenarioDescriptor\<rparr>
                      else Inr \<lparr>json = Inr notFound\<rparr>),
      propertyOfNullish = (\<lambda>v k. Exn ''Cannot read property of null'')\<rparr>"

definition typed :: "string \<Rightarrow> player" where
  "typed t =
     \<lparr>streamData = JNull, loading = False, error = JNull, title = t, isFullscreen = False,
      isLoading = False, playerState = PAUSED, currentTime = Finite 0, duration = Finite 0\<rparr>"

definition watching :: player where
  "watching =
     \<lparr>streamData = scenarioDescriptor, loading = False, error = JStr ''old'',
      title = ''wednesday.s01e03'', isFullscreen = True,
      isLoading = True, playerState = ENDED, currentTime = Finite 42, duration = Finite 90\<rparr>"

text \<open>
  Two calls that overlap. The user submits \<^verbatim>\<open>series.s01e01\<close>, and before the answer
  arrives types \<^verbatim>\<open>wednesday.s01e03\<close> and submits again. The second call is answered
  first; the answer to the first call, a refusal, arrives last.
\<close>

definition firstStarted :: player where
  "firstStarted = fst (fetchStream_start (typed ''series.s01e01''))"

definition secondStarted :: player where
  "secondStarted = fst (fetchStream_start (setTitle ''wednesday.s01e03'' firstStarted))"

definition secondAnswered :: player where
  "secondAnswered =
     fst (fetchStream_resume knowingOne
            (outbound knowingOne (stream_url ''wednesday.s01e03'')) secondStarted)"

definition firstAnswered :: player where
  "firstAnswered =
     fst (fetchStream_resume knowingOne
            (outbound knowingOne (stream_url ''series.s01e01'')) secondAnswered)"

section \<open>Properties of the gateway\<close>

lemma hexDigit_unreserved: "hexDigit n \<in> set uriUnreserved"
proof -
  have "\<forall>k<16. ''0123456789ABCDEF'' ! k \<in> set uriUnreserved"
    by (simp add: uriUnreserved_def numeral_eq_Suc All_less_Suc)
  then show ?thesis
    by (simp add: hexDigit_def)
qed

text \<open>An encoded component holds only unreserved characters and percent signs.\<close>

lemma encodeURIComponent_alphabet:
  "set (encodeURIComponent s) \<subseteq> insert (CHR ''%'') (set uriUnreserved)"
  by (auto simp: encodeURIComponent_def percentEncode_def hexDigit_unreserved)


lemma proxy_try_blank:
  "query req ''title'' = None \<or> query req ''title'' = Some [] \<Longrightarrow>
   proxy_get_stream_try env req =
     (Inr (res_json (JObj [(''success'', JBool False),
                           (''error'', JStr ''Title parameter required'')])), [])"
  by (auto simp: proxy_get_stream_try_def)

lemma proxy_try_forward:
  "query req ''title'' = Some t \<Longrightarrow> t \<noteq> [] \<Longrightarrow>
   proxy_get_stream_try env req =
     (case outbound env (upstream_url t) of
        Inl err \<Rightarrow> (Inl err, [upstream_url t])
      | Inr data \<Rightarrow> (Inr (res_json data), [upstream_url t]))"
  by (simp add: proxy_get_stream_try_def outbound_def split: sum.splits)

text \<open>What a request with a non-empty title is answered, by what its outbound call gives.\<close>

lemma proxy_forward:
  assumes "query req ''title'' = Some t" and "t \<noteq> []"
  shows "proxy_get_stream env req =
           (case outbound env (upstream_url t) of
              Inr data \<Rightarrow> \<lparr>status = 200, body = stringified data\<rparr>
            | Inl err \<Rightarrow>
                \<lparr>status = 200,
                 body = JObj [(''success'', JBool False), (''error'', JStr (message err))]\<rparr>,
            [upstream_url t])"
  using assms
  by (simp add: proxy_get_stream_def proxy_try_forward res_json_def split: sum.splits)

lemma proxy_blank:
  assumes "query req ''title'' = None \<or> query req ''title'' = Some []"
  shows "proxy_get_stream env req =
           (\<lparr>status = 200,
             body = JObj [(''success'', JBool False),
                          (''error'', JStr ''Title parameter required'')]\<rparr>, [])"
  using proxy_try_blank [OF assms, of env] by (simp add: proxy_get_stream_def res_json_def)

text \<open>
  Claim C3. When the outbound call of a request throws, whether in \<^verbatim>\<open>fetch\<close> or in
  reading the body as JSON, the exception leaves the \<^verbatim>\<open>try\<close> block and the handler
  answers with status 200 and the body \<^verbatim>\<open>{ success: false, error: <message> }\<close>,
  the message being the exception's. The handler itself never ends in an exception:
  its result is always a response.
\<close>

theorem gateway_upstream_throws:
  assumes "query req ''title'' = Some t" and "t \<noteq> []"
    and "outbound env (upstream_url t) = Inl err"
  shows "proxy_get_stream_try env req = (Inl err, [upstream_url t]) \<and>
         proxy_get_stream env req =
           (\<lparr>status = 200,
             body = JObj [(''success'', JBool False), (''error'', JStr (message err))]\<rparr>,
            [upstream_url t])"
  using assms by (simp add: proxy_forward proxy_try_forward)

theorem gateway_upstream_throws_witness:
  "query \<lparr>query = [''title'' \<mapsto> ''dune'']\<rparr> ''title'' = Some ''dune'' \<and> ''dune'' \<noteq> [] \<and>
   outbound (throwing ''timeout'') (upstream_url ''dune'') = Inl (Exn ''timeout'') \<and>
   proxy_get_stream (throwing ''timeout'') \<lparr>query = [''title'' \<mapsto> ''dune'']\<rparr> =
     (\<lparr>status = 200,
       body = JObj [(''success'', JBool False), (''error'', JStr ''timeout'')]\<rparr>,
      [''https://u-1-1azw.onrender.com/api/get-stream?title=dune''])"
proof -
  have h1: "query \<lparr>query = [''title'' \<mapsto> ''dune'']\<rparr> ''title'' = Some ''dune''"
    by simp
  have h2: "''dune'' \<noteq> []"
    by simp
  have h3: "outbound (throwing ''timeout'') (upstream_url ''dune'') = Inl (Exn ''timeout'')"
    by (simp add: outbound_def throwing_def)
  have url: "upstream_url ''dune'' = ''https://u-1-1azw.onrender.com/api/get-stream?title=dune''"
    by (simp add: upstream_url_def encodeURIComponent_def uriUnreserved_def)
  from gateway_upstream_throws [OF h1 h2 h3] h1 h3 url show ?thesis
    by simp
qed

text \<open>
  Claim C4. When the query has no \<^verbatim>\<open>title\<close>, or an empty one, the handler answers
  \<^verbatim>\<open>{ success: false, error: "Title parameter required" }\<close> and makes no outbound call.
\<close>

theorem gateway_title_required:
  assumes "query req ''title'' = None \<or> query req ''title'' = Some []"
  shows "proxy_get_stream env req =
           (\<lparr>status = 200,
             body = JObj [(''success'', JBool False),
                          (''error'', JStr ''Title parameter required'')]\<rparr>, [])"
  using assms by (rule proxy_blank)

theorem gateway_title_required_witness:
  "proxy_get_stream (answering scenarioDescriptor) \<lparr>query = Map.empty\<rparr> =
     (\<lparr>status = 200,
       body = JObj [(''success'', JBool False),
                    (''error'', JStr ''Title parameter required'')]\<rparr>, []) \<and>
   proxy_get_stream (answering scenarioDescriptor) \<lparr>query = [''title'' \<mapsto> []]\<rparr> =
     (\<lparr>status = 200,
       body = JObj [(''success'', JBool False),
                    (''error'', JStr ''Title parameter required'')]\<rparr>, [])"
proof -
  have h1: "query \<lparr>query = Map.empty\<rparr> ''title'' = None \<or>
            query \<lparr>query = Map.empty\<rparr> ''title'' = Some []"
    by simp
  have h2: "query \<lparr>query = [''title'' \<mapsto> []]\<rparr> ''title'' = None \<or>
            query \<lparr>query = [''title'' \<mapsto> []]\<rparr> ''title'' = Some []"
    by simp
  from gateway_title_required [OF h1] gateway_title_required [OF h2] show ?thesis
    by simp
qed




text \<open>
  A title that trims to nothing is made of white space only, and no byte of a white space
  character is unreserved: such a title is sent as percent escapes throughout.
\<close>

lemma stripLeading_chars:
  "set s \<subseteq> (\<Union>w \<in> set ws. set w) \<union> set (stripLeading ws s)"
proof (induction ws s rule: stripLeading.induct)
  case (1 ws s)
  show ?case
  proof (cases "List.find (\<lambda>w. w \<noteq> [] \<and> take (length w) s = w) ws")
    case None
    then have "stripLeading ws s = s"
      by (subst stripLeading.simps) simp
    then show ?thesis
      by simp
  next
    case (Some w)
    then have w: "w \<in> set ws" and "take (length w) s = w"
      by (auto simp: find_Some_iff)
    then have split: "s = w @ drop (length w) s"
      by (metis append_take_drop_id)
    from Some have "stripLeading ws s = stripLeading ws (drop (length w) s)"
      by (subst stripLeading.simps) simp
    moreover from "1.IH" [OF Some]
    have "set (drop (length w) s)
            \<subseteq> (\<Union>w \<in> set ws. set w) \<union> set (stripLeading ws (drop (length w) s))" .
    moreover have "set s = set w \<union> set (drop (length w) s)"
      by (subst split) simp
    ultimately show ?thesis
      using w by auto
  qed
qed

lemma blank_chars:
  assumes "trim t = []"
  shows "set t \<subseteq> (\<Union>w \<in> set whiteSpace. set w)"
proof -
  from assms have "stripLeading (map rev whiteSpace) (rev (stripLeading whiteSpace t)) = []"
    by (simp add: trim_def)
  with stripLeading_chars [of "rev (stripLeading whiteSpace t)" "map rev whiteSpace"]
  have "set (stripLeading whiteSpace t) \<subseteq> (\<Union>w \<in> set whiteSpace. set w)"
    by simp
  with stripLeading_chars [of t whiteSpace] show ?thesis
    by blast
qed

lemma whiteSpace_reserved: "\<forall>c \<in> (\<Union>w \<in> set whiteSpace. set w). c \<notin> set uriUnreserved"
  by (simp add: whiteSpace_def uriUnreserved_def)

lemma blank_encoded:
  assumes "trim t = []"
  shows "encodeURIComponent t = concat (map percentEncode t)"
proof -
  have "c \<notin> set uriUnreserved" if "c \<in> set t" for c
    using that blank_chars [OF assms] whiteSpace_reserved by blast
  then have "map (\<lambda>c. if c \<in> set uriUnreserved then [c] else percentEncode c) t
               = map percentEncode t"
    by (intro map_cong) simp_all
  then show ?thesis
    unfolding encodeURIComponent_def by (rule arg_cong)
qed

text \<open>
  Claim C9. A \<^verbatim>\<open>title\<close> that is not empty but trims to nothing does not take the
  validation branch: the handler makes the outbound call with that title URL-encoded,
  every byte of it as a percent escape, and what it answers is what the call gives, the
  upstream's body or the envelope with the exception's message. The validation answer,
  the "Title parameter required" body sent without any outbound call, is given exactly
  when \<^verbatim>\<open>title\<close> is absent or the empty string.
\<close>

theorem gateway_whitespace_title:
  assumes "query req ''title'' = Some t" and "t \<noteq> []" and "trim t = []"
  shows "proxy_get_stream env req =
           (case outbound env
                   (''https://u-1-1azw.onrender.com/api/get-stream?title=''
                      @ encodeURIComponent t) of
              Inr data \<Rightarrow> \<lparr>status = 200, body = stringified data\<rparr>
            | Inl err \<Rightarrow>
                \<lparr>status = 200,
                 body = JObj [(''success'', JBool False), (''error'', JStr (message err))]\<rparr>,
            [''https://u-1-1azw.onrender.com/api/get-stream?title='' @ encodeURIComponent t]) \<and>
         encodeURIComponent t = concat (map percentEncode t) \<and>
         (\<forall>r. proxy_get_stream env r =
                 (\<lparr>status = 200,
                   body = JObj [(''success'', JBool False),
                                (''error'', JStr ''Title parameter required'')]\<rparr>, [])
               \<longleftrightarrow> query r ''title'' = None \<or> query r ''title'' = Some [])"
proof (intro conjI)
  from assms(3) show "encodeURIComponent t = concat (map percentEncode t)"
    by (rule blank_encoded)
next
  from assms(1,2) show "proxy_get_stream env req =
           (case outbound env
                   (''https://u-1-1azw.onrender.com/api/get-stream?title=''
                      @ encodeURIComponent t) of
              Inr data \<Rightarrow> \<lparr>status = 200, body = stringified data\<rparr>
            | Inl err \<Rightarrow>
                \<lparr>status = 200,
                 body = JObj [(''success'', JBool False), (''error'', JStr (message err))]\<rparr>,
            [''https://u-1-1azw.onrender.com/api/get-stream?title='' @ encodeURIComponent t])"
    by (simp add: proxy_forward upstream_url_def)
next
  show "\<forall>r. proxy_get_stream env r =
                 (\<lparr>status = 200,
                   body = JObj [(''success'', JBool False),
                                (''error'', JStr ''Title parameter required'')]\<rparr>, [])
               \<longleftrightarrow> query r ''title'' = None \<or> query r ''title'' = Some []"
  proof (intro allI iffI)
    fix r :: request
    assume sent: "proxy_get_stream env r =
                 (\<lparr>status = 200,
                   body = JObj [(''success'', JBool False),
                                (''error'', JStr ''Title parameter required'')]\<rparr>, [])"
    show "query r ''title'' = None \<or> query r ''title'' = Some []"
    proof (rule ccontr)
      assume "\<not> (query r ''title'' = None \<or> query r ''title'' = Some [])"
      then obtain u where "query r ''title'' = Some u" and "u \<noteq> []"
        by auto
      then have "snd (proxy_get_stream env r) = [upstream_url u]"
        by (simp add: proxy_forward)
      with sent show False
        by simp
    qed
  next
    fix r :: request
    assume "query r ''title'' = None \<or> query r ''title'' = Some []"
    then show "proxy_get_stream env r =
                 (\<lparr>status = 200,
                   body = JObj [(''success'', JBool False),
                                (''error'', JStr ''Title parameter required'')]\<rparr>, [])"
      by (rule proxy_blank)
  qed
qed

theorem gateway_whitespace_title_witness:
  "trim '' '' = [] \<and> encodeURIComponent '' '' = ''%20'' \<and>
   proxy_get_stream (answering scenarioDescriptor) \<lparr>query = [''title'' \<mapsto> '' '']\<rparr> =
     (\<lparr>status = 200, body = scenarioDescriptor\<rparr>,
      [''https://u-1-1azw.onrender.com/api/get-stream?title=%20'']) \<and>
   proxy_get_stream (throwing ''timeout'') \<lparr>query = [''title'' \<mapsto> '' '']\<rparr> =
     (\<lparr>status = 200,
       body = JObj [(''success'', JBool False), (''error'', JStr ''timeout'')]\<rparr>,
      [''https://u-1-1azw.onrender.com/api/get-stream?title=%20'']) \<and>
   proxy_get_stream (answering scenarioDescriptor) \<lparr>query = [''title'' \<mapsto> '' '']\<rparr> \<noteq>
     (\<lparr>status = 200,
       body = JObj [(''success'', JBool False),
                    (''error'', JStr ''Title parameter required'')]\<rparr>, [])"
proof -
  have h1: "query \<lparr>query = [''title'' \<mapsto> '' '']\<rparr> ''title'' = Some '' ''"
    by simp
  have h2: "'' '' \<noteq> []"
    by simp
  have h3: "trim '' '' = []"
    by (simp add: trim_def whiteSpace_def)
  have enc: "encodeURIComponent '' '' = ''%20''"
    by (simp add: encodeURIComponent_def uriUnreserved_def percentEncode_def hexDigit_def)
  have answered: "outbound (answering scenarioDescriptor) url = Inr scenarioDescriptor" for url
    by (simp add: outbound_def answering_def)
  have thrown: "outbound (throwing ''timeout'') url = Inl (Exn ''timeout'')" for url
    by (simp add: outbound_def throwing_def)
  have sent: "stringified scenarioDescriptor = scenarioDescriptor"
    by (simp add: scenarioDescriptor_def)
  from gateway_whitespace_title [OF h1 h2 h3, of "answering scenarioDescriptor"]
    gateway_whitespace_title [OF h1 h2 h3, of "throwing ''timeout''"]
    h3 enc answered thrown sent
  show ?thesis
    by simp
qed

section \<open>Properties of the player controller\<close>

text \<open>
  A truthy or boolean \<^verbatim>\<open>success\<close> can only be read from an object, so reading it from
  such a body does not throw.
\<close>

lemma truthy_field_not_nullish: "truthy (field d k) \<Longrightarrow> d \<noteq> JNull \<and> d \<noteq> JUndefined"
  by (cases d) auto

lemma field_bool_not_nullish: "field d k = JBool b \<Longrightarrow> d \<noteq> JNull \<and> d \<noteq> JUndefined"
  by (cases d) auto

lemma fetchStream_try_truthy:
  assumes "truthy (field data ''success'')"
  shows "fetchStream_try env (Inr data) s =
           Inr (s\<lparr>streamData := data, playerState := PLAYING\<rparr>, [])"
  using assms truthy_field_not_nullish [of data "''success''"]
  by (simp add: fetchStream_try_def get_prop_def)

lemma fetchStream_try_falsy:
  assumes "field data ''success'' = JBool False"
  shows "fetchStream_try env (Inr data) s =
           Inr (s\<lparr>error := field data ''error''\<rparr>,
                [Alert ''Error'' (if truthy (field data ''error'') then field data ''error''
                                  else JStr ''Failed to get stream'')])"
  using assms field_bool_not_nullish [of data "''success''" False]
  by (simp add: fetchStream_try_def get_prop_def)

text \<open>A call with a title that does not trim to nothing resets the state and waits.\<close>

lemma fetchStream_start_sends:
  assumes "trim (title s) \<noteq> []"
  shows "fetchStream_start s =
           (s\<lparr>loading := True, error := JNull, streamData := JNull, isLoading := True\<rparr>,
            [Fetch (stream_url (title s))], Some (stream_url (title s)))"
  using assms by (simp add: fetchStream_start_def)

text \<open>
  The continuation on a successful answer, from any state: it sets all three of
  \<^verbatim>\<open>streamData\<close>, \<^verbatim>\<open>playerState\<close> and \<^verbatim>\<open>loading\<close>, whatever ran while the call waited.
\<close>

lemma fetchStream_resume_truthy:
  assumes "truthy (field data ''success'')"
  shows "fetchStream_resume env (Inr data) cur =
           (cur\<lparr>streamData := data, playerState := PLAYING, loading := False\<rparr>, [])"
  using assms by (simp add: fetchStream_resume_def fetchStream_try_truthy)

text \<open>The continuation on a refusal, from any state: it sets the error and \<^verbatim>\<open>loading\<close>.\<close>

lemma fetchStream_resume_falsy:
  assumes "field data ''success'' = JBool False"
  shows "fetchStream_resume env (Inr data) cur =
           (cur\<lparr>error := field data ''error'', loading := False\<rparr>,
            [Alert ''Error'' (if truthy (field data ''error'') then field data ''error''
                              else JStr ''Failed to get stream'')])"
  using assms by (simp add: fetchStream_resume_def fetchStream_try_falsy)

lemma fetchStream_alone:
  assumes "trim (title s) \<noteq> []"
  shows "fetchStream env s =
           (fst (fetchStream_resume env (outbound env (stream_url (title s)))
                   (s\<lparr>loading := True, error := JNull, streamData := JNull,
                      isLoading := True\<rparr>)),
            Fetch (stream_url (title s)) #
            snd (fetchStream_resume env (outbound env (stream_url (title s)))
                   (s\<lparr>loading := True, error := JNull, streamData := JNull,
                      isLoading := True\<rparr>)))"
  using assms by (simp add: fetchStream_def fetchStream_start_sends split: prod.splits)

text \<open>
  Claim C1. A call of \<^verbatim>\<open>fetchStream\<close> reaches the network only with a title that does
  not trim to nothing. When the upstream then answers with a well-formed descriptor whose
  \<^verbatim>\<open>success\<close> is true, the call ends with \<^verbatim>\<open>loading\<close> false, \<^verbatim>\<open>playerState\<close> PLAYING,
  and the response itself as the stored descriptor, so that its \<^verbatim>\<open>m3u8_url\<close>,
  \<^verbatim>\<open>headers.Referer\<close> and \<^verbatim>\<open>headers['User-Agent']\<close> are those of the response.
\<close>

theorem fetchStream_success:
  assumes "trim (title s) \<noteq> []"
    and "outbound env (stream_url (title s)) = Inr data"
    and "wellFormedDescriptor data"
  shows "loading (fst (fetchStream env s)) = False \<and>
         playerState (fst (fetchStream env s)) = PLAYING \<and>
         streamData (fst (fetchStream env s)) = data \<and>
         field (streamData (fst (fetchStream env s))) ''m3u8_url'' = field data ''m3u8_url'' \<and>
         field (field (streamData (fst (fetchStream env s))) ''headers'') ''Referer''
           = field (field data ''headers'') ''Referer'' \<and>
         field (field (streamData (fst (fetchStream env s))) ''headers'') ''User-Agent''
           = field (field data ''headers'') ''User-Agent''"
proof -
  from assms(3) have "truthy (field data ''success'')"
    by (simp add: wellFormedDescriptor_def)
  then have "fetchStream_resume env (Inr data)
        (s\<lparr>loading := True, error := JNull, streamData := JNull, isLoading := True\<rparr>)
      = (s\<lparr>loading := True, error := JNull, streamData := JNull, isLoading := True,
           streamData := data, playerState := PLAYING, loading := False\<rparr>, [])"
    by (rule fetchStream_resume_truthy)
  with assms(1,2) show ?thesis
    by (simp add: fetchStream_alone)
qed

theorem fetchStream_success_witness:
  "trim (title (typed ''wednesday.s01e03'')) \<noteq> [] \<and>
   outbound (answering scenarioDescriptor) (stream_url (title (typed ''wednesday.s01e03'')))
     = Inr scenarioDescriptor \<and>
   wellFormedDescriptor scenarioDescriptor \<and>
   \<not> loading (fst (fetchStream (answering scenarioDescriptor) (typed ''wednesday.s01e03''))) \<and>
   playerState (fst (fetchStream (answering scenarioDescriptor) (typed ''wednesday.s01e03'')))
     = PLAYING \<and>
   field (streamData (fst (fetchStream (answering scenarioDescriptor)
     (typed ''wednesday.s01e03'')))) ''m3u8_url'' = JStr ''https://x/y.m3u8'' \<and>
   field (field (streamData (fst (fetchStream (answering scenarioDescriptor)
     (typed ''wednesday.s01e03'')))) ''headers'') ''Referer'' = JStr ''r'' \<and>
   field (field (streamData (fst (fetchStream (answering scenarioDescriptor)
     (typed ''wednesday.s01e03'')))) ''headers'') ''User-Agent'' = JStr ''u''"
proof -
  have h1: "trim (title (typed ''wednesday.s01e03'')) \<noteq> []"
    by (simp add: typed_def trim_def whiteSpace_def)
  have h2: "outbound (answering scenarioDescriptor)
              (stream_url (title (typed ''wednesday.s01e03''))) = Inr scenarioDescriptor"
    by (simp add: outbound_def answering_def)
  have h3: "wellFormedDescriptor scenarioDescriptor"
    by (simp add: wellFormedDescriptor_def scenarioDescriptor_def)
  have stored: "field scenarioDescriptor ''m3u8_url'' = JStr ''https://x/y.m3u8''"
    "field (field scenarioDescriptor ''headers'') ''Referer'' = JStr ''r''"
    "field (field scenarioDescriptor ''headers'') ''User-Agent'' = JStr ''u''"
    by (simp_all add: scenarioDescriptor_def)
  from fetchStream_success [OF h1 h2 h3] h1 h2 h3 stored show ?thesis
    by simp
qed

text \<open>
  Claim C5, as the code has it. Take a call of \<^verbatim>\<open>fetchStream\<close> that the upstream
  answers with a body whose \<^verbatim>\<open>success\<close> is false. The call clears the stored descriptor
  when it starts. When the answer is handled, in whatever state the screen then is,
  \<^verbatim>\<open>loading\<close> becomes false, the stored error becomes the \<^verbatim>\<open>error\<close> field of the
  response, and the stored descriptor is left as it is at that moment. So no descriptor
  is stored afterwards unless another handler stored one while the call was waiting; in
  particular none is stored after a call that no other handler interrupts.
\<close>

theorem fetchStream_failure:
  assumes "trim (title s) \<noteq> []"
    and "outbound env (stream_url (title s)) = Inr data"
    and "field data ''success'' = JBool False"
  shows "streamData (fst (fetchStream_start s)) = JNull \<and>
         snd (snd (fetchStream_start s)) = Some (stream_url (title s)) \<and>
         (\<forall>cur. loading (fst (fetchStream_resume env (Inr data) cur)) = False \<and>
                error (fst (fetchStream_resume env (Inr data) cur)) = field data ''error'' \<and>
                streamData (fst (fetchStream_resume env (Inr data) cur)) = streamData cur) \<and>
         loading (fst (fetchStream env s)) = False \<and>
         streamData (fst (fetchStream env s)) = JNull \<and>
         error (fst (fetchStream env s)) = field data ''error''"
proof (intro conjI allI)
  from assms(1) show "streamData (fst (fetchStream_start s)) = JNull"
    and "snd (snd (fetchStream_start s)) = Some (stream_url (title s))"
    by (simp_all add: fetchStream_start_sends)
next
  fix cur :: player
  from assms(3) show "loading (fst (fetchStream_resume env (Inr data) cur)) = False"
    and "error (fst (fetchStream_resume env (Inr data) cur)) = field data ''error''"
    and "streamData (fst (fetchStream_resume env (Inr data) cur)) = streamData cur"
    by (simp_all add: fetchStream_resume_falsy)
next
  from assms show "loading (fst (fetchStream env s)) = False"
    and "streamData (fst (fetchStream env s)) = JNull"
    and "error (fst (fetchStream env s)) = field data ''error''"
    by (simp_all add: fetchStream_alone fetchStream_resume_falsy)
qed

theorem fetchStream_failure_witness:
  "trim (title (typed ''series.s01e01'')) \<noteq> [] \<and>
   outbound knowingOne (stream_url (title (typed ''series.s01e01''))) = Inr notFound \<and>
   field notFound ''success'' = JBool False \<and>
   streamData (fst (fetchStream_start (typed ''series.s01e01''))) = JNull \<and>
   \<not> loading (fst (fetchStream_resume knowingOne (Inr notFound) watching)) \<and>
   error (fst (fetchStream_resume knowingOne (Inr notFound) watching))
     = JStr ''Stream not found'' \<and>
   streamData (fst (fetchStream_resume knowingOne (Inr notFound) watching))
     = scenarioDescriptor \<and>
   \<not> loading (fst (fetchStream knowingOne (typed ''series.s01e01''))) \<and>
   streamData (fst (fetchStream knowingOne (typed ''series.s01e01''))) = JNull \<and>
   error (fst (fetchStream knowingOne (typed ''series.s01e01''))) = JStr ''Stream not found''"
proof -
  have h1: "trim (title (typed ''series.s01e01'')) \<noteq> []"
    by (simp add: typed_def trim_def whiteSpace_def)
  have h2: "outbound knowingOne (stream_url (title (typed ''series.s01e01''))) = Inr notFound"
    by (simp add: outbound_def knowingOne_def typed_def stream_url_def API_BASE_URL_def
        encodeURIComponent_def uriUnreserved_def trim_def whiteSpace_def)
  have h3: "field notFound ''success'' = JBool False"
    by (simp add: notFound_def)
  have said: "field notFound ''error'' = JStr ''Stream not found''"
    by (simp add: notFound_def)
  have before: "streamData watching = scenarioDescriptor"
    by (simp add: watching_def)
  from fetchStream_failure [OF h1 h2 h3] h1 h2 h3 said before show ?thesis
    by simp
qed

text \<open>
  The claim as it was stated fails when two calls overlap. In the run of
  \<open>firstAnswered\<close> the first call is refused, and after its answer has been handled the
  descriptor that the second call stored is still there.
\<close>

theorem fetchStream_failure_counterexample:
  "snd (snd (fetchStream_start (typed ''series.s01e01''))) = Some (stream_url ''series.s01e01'') \<and>
   outbound knowingOne (stream_url (title (typed ''series.s01e01''))) = Inr notFound \<and>
   field notFound ''success'' = JBool False \<and>
   loading firstAnswered = False \<and>
   error firstAnswered = JStr ''Stream not found'' \<and>
   streamData firstAnswered = scenarioDescriptor \<and>
   streamData firstAnswered \<noteq> JNull"
proof -
  have first: "outbound knowingOne (stream_url ''series.s01e01'') = Inr notFound"
    by (simp add: outbound_def knowingOne_def stream_url_def API_BASE_URL_def
        encodeURIComponent_def uriUnreserved_def trim_def whiteSpace_def)
  have second: "outbound knowingOne (stream_url ''wednesday.s01e03'') = Inr scenarioDescriptor"
    by (simp add: outbound_def knowingOne_def)
  have refused: "field notFound ''success'' = JBool False"
    and said: "field notFound ''error'' = JStr ''Stream not found''"
    by (simp_all add: notFound_def)
  have granted: "truthy (field scenarioDescriptor ''success'')"
    by (simp add: scenarioDescriptor_def)
  have "secondAnswered =
          secondStarted\<lparr>streamData := scenarioDescriptor, playerState := PLAYING,
                          loading := False\<rparr>"
    by (simp add: secondAnswered_def second fetchStream_resume_truthy [OF granted])
  then have final: "firstAnswered =
          secondStarted\<lparr>streamData := scenarioDescriptor, playerState := PLAYING,
                          loading := False, error := JStr ''Stream not found'',
                          loading := False\<rparr>"
    by (simp add: firstAnswered_def first fetchStream_resume_falsy [OF refused] said)
  have "loading firstAnswered = False \<and> error firstAnswered = JStr ''Stream not found'' \<and>
        streamData firstAnswered = scenarioDescriptor"
    unfolding final by simp
  moreover have "scenarioDescriptor \<noteq> JNull"
    by (simp add: scenarioDescriptor_def)
  moreover have "outbound knowingOne (stream_url (title (typed ''series.s01e01''))) = Inr notFound"
    using first by (simp add: typed_def)
  moreover have "snd (snd (fetchStream_start (typed ''series.s01e01'')))
                   = Some (stream_url ''series.s01e01'')"
    by (simp add: fetchStream_start_def typed_def trim_def whiteSpace_def)
  ultimately show ?thesis
    using refused by simp
qed

text \<open>
  Claim C2. Whatever the state before, after \<^verbatim>\<open>clearAll()\<close> the title is empty, no
  descriptor and no error are stored, \<^verbatim>\<open>playerState\<close> is PAUSED and \<^verbatim>\<open>currentTime\<close> is 0.
\<close>

theorem clearAll_resets:
  "title (clearAll s) = [] \<and> streamData (clearAll s) = JNull \<and> error (clearAll s) = JNull \<and>
   playerState (clearAll s) = PAUSED \<and> currentTime (clearAll s) = Finite 0"
  by (simp add: clearAll_def)

theorem clearAll_resets_witness:
  "title (clearAll watching) = [] \<and> streamData (clearAll watching) = JNull \<and>
   error (clearAll watching) = JNull \<and> playerState (clearAll watching) = PAUSED \<and>
   currentTime (clearAll watching) = Finite 0"
  using clearAll_resets [of watching] by simp

text \<open>
  Claim C10. \<^verbatim>\<open>clearAll()\<close> leaves \<^verbatim>\<open>duration\<close>, \<^verbatim>\<open>isFullscreen\<close> and the widget's
  \<^verbatim>\<open>isLoading\<close> as they were; the only other variable, \<^verbatim>\<open>loading\<close>, is left as it was
  too, so nothing but the five variables it resets changes.
\<close>

theorem clearAll_frame:
  "duration (clearAll s) = duration s \<and> isFullscreen (clearAll s) = isFullscreen s \<and>
   isLoading (clearAll s) = isLoading s \<and> loading (clearAll s) = loading s"
  by (simp add: clearAll_def)

theorem clearAll_frame_witness:
  "duration (clearAll watching) = Finite 90 \<and> isFullscreen (clearAll watching) \<and>
   isLoading (clearAll watching) \<and> \<not> loading (clearAll watching)"
  using clearAll_frame [of watching] by (simp add: watching_def)

text \<open>
  Claim C7. An \<^verbatim>\<open>onProgress\<close> callback that arrives while \<^verbatim>\<open>isLoading\<close> is true or
  \<^verbatim>\<open>playerState\<close> is ENDED leaves \<^verbatim>\<open>currentTime\<close> as it was; any other sets it to the
  callback's \<^verbatim>\<open>currentTime\<close>.
\<close>

theorem onProgress_currentTime:
  "currentTime (onProgress t s) =
     (if isLoading s \<or> playerState s = ENDED then currentTime s else t)"
  by (simp add: onProgress_def)

theorem onProgress_currentTime_witness:
  "currentTime (onProgress (Finite 7) watching) = Finite 42 \<and>
   currentTime (onProgress (Finite 7) (watching\<lparr>isLoading := False\<rparr>)) = Finite 42 \<and>
   currentTime (onProgress (Finite 7) (watching\<lparr>playerState := PLAYING\<rparr>)) = Finite 42 \<and>
   currentTime (onProgress (Finite 7) (watching\<lparr>isLoading := False, playerState := PLAYING\<rparr>))
     = Finite 7"
  using onProgress_currentTime [of "Finite 7" watching]
    onProgress_currentTime [of "Finite 7" "watching\<lparr>isLoading := False\<rparr>"]
    onProgress_currentTime [of "Finite 7" "watching\<lparr>playerState := PLAYING\<rparr>"]
    onProgress_currentTime
      [of "Finite 7" "watching\<lparr>isLoading := False, playerState := PLAYING\<rparr>"]
  by (simp add: watching_def)

text \<open>
  Claim C8. In every state, the widget's \<^verbatim>\<open>onError\<close> callback shows one alert, sets
  \<^verbatim>\<open>isLoading\<close> to false, and leaves the stored descriptor, the stored error and
  \<^verbatim>\<open>playerState\<close> as they were.
\<close>

theorem onError_frame:
  "snd (onError e s) =
     [Alert ''Playback Error''
        (JStr ''Failed to play video stream. Check if headers are working.'')] \<and>
   isLoading (fst (onError e s)) = False \<and>
   streamData (fst (onError e s)) = streamData s \<and>
   error (fst (onError e s)) = error s \<and>
   playerState (fst (onError e s)) = playerState s"
  by (simp add: onError_def)

theorem onError_frame_witness:
  "snd (onError () watching) =
     [Alert ''Playback Error''
        (JStr ''Failed to play video stream. Check if headers are working.'')] \<and>
   \<not> isLoading (fst (onError () watching)) \<and>
   streamData (fst (onError () watching)) = scenarioDescriptor \<and>
   error (fst (onError () watching)) = JStr ''old'' \<and>
   playerState (fst (onError () watching)) = ENDED"
  using onError_frame [of "()" watching] by (simp add: watching_def)

subsection \<open>The first listing\<close>

text \<open>
  The handlers of the first listing do the same to the five variables they share with the
  second; that listing has no \<^verbatim>\<open>playerState\<close>, \<^verbatim>\<open>currentTime\<close> or \<^verbatim>\<open>isLoading\<close> to set.
\<close>

lemma fetchStream_resume_v1_truthy:
  assumes "truthy (field data ''success'')"
  shows "fetchStream_resume_v1 env (Inr data) cur =
           (cur\<lparr>streamData := data, loading := False\<rparr>, [])"
  using assms truthy_field_not_nullish [of data "''success''"]
  by (simp add: fetchStream_resume_v1_def fetchStream_try_v1_def get_prop_def)

lemma fetchStream_resume_v1_falsy:
  assumes "field data ''success'' = JBool False"
  shows "fetchStream_resume_v1 env (Inr data) cur =
           (cur\<lparr>error := field data ''error'', loading := False\<rparr>,
            [Alert ''Error'' (if truthy (field data ''error'') then field data ''error''
                              else JStr ''Failed to get stream'')])"
  using assms field_bool_not_nullish [of data "''success''" False]
  by (simp add: fetchStream_resume_v1_def fetchStream_try_v1_def get_prop_def)

lemma fetchStream_v1_success:
  assumes "trim (title s) \<noteq> []"
    and "outbound env (stream_url (title s)) = Inr data"
    and "truthy (field data ''success'')"
  shows "loading (fst (fetchStream_v1 env s)) = False \<and>
         streamData (fst (fetchStream_v1 env s)) = data"
  using assms
  by (simp add: fetchStream_v1_def fetchStream_start_v1_def fetchStream_resume_v1_truthy)

lemma fetchStream_v1_failure:
  assumes "trim (title s) \<noteq> []"
    and "outbound env (stream_url (title s)) = Inr data"
    and "field data ''success'' = JBool False"
  shows "loading (fst (fetchStream_v1 env s)) = False \<and>
         streamData (fst (fetchStream_v1 env s)) = JNull \<and>
         error (fst (fetchStream_v1 env s)) = field data ''error''"
  using assms
  by (simp add: fetchStream_v1_def fetchStream_start_v1_def fetchStream_resume_v1_falsy)

lemma onError_v1_frame:
  "onError_v1 e s = (s, [Alert ''Playback Error'' (JStr ''Failed to play video stream'')])"
  by (simp add: onError_v1_def)

lemma clearAll_extends_v1:
  "clearAll s = (clearAll_v1 s)\<lparr>playerState := PAUSED, currentTime := Finite 0\<rparr>"
  by (simp add: clearAll_def clearAll_v1_def)


end
